theory Spec2Isabelle
  imports Main "HOL-Library.Word"
begin

section \<open>Buffers and numbers\<close>

text \<open>
  A Node \<open>Buffer\<close> is a sequence of octets. The numbers the command handler computes
  with are non-negative integers (field values, lengths and offsets); a field the
  parser could not read holds \<open>null\<close>, which is \<open>None\<close> here.
\<close>

type_synonym byte = "8 word"
type_synonym buffer = "byte list"

text \<open>
  \<open>null\<close> in arithmetic, in a comparison and as a slice index converts to the number 0
  (\<open>null + 5\<close> is 5, \<open>null < 5\<close> is true, \<open>2 * null\<close> is 0).
\<close>

definition to_number :: "nat option \<Rightarrow> nat" where
  "to_number v = (case v of None \<Rightarrow> 0 | Some n \<Rightarrow> n)"

text \<open>
  \<open>Buffer.prototype.slice(start, end)\<close> at non-negative integer indices (the
  typed array's \<open>subarray\<close>): each index is clamped to the length of the buffer, an
  end before the start gives the empty buffer, and the result is the view of the
  bytes from \<open>start\<close> up to, not including, \<open>end\<close>. The second argument is an end
  index, not a length. No index is ever dereferenced outside the buffer.
\<close>

definition buffer_slice :: "buffer \<Rightarrow> nat \<Rightarrow> nat \<Rightarrow> buffer" where
  "buffer_slice b start fin =
     (let len = length b;
          s = (if start > len then len else start);
          e = (if fin > len then len else fin);
          e' = (if e < s then s else e)
      in take (e' - s) (drop s b))"

section \<open>The parser of the \<open>binary\<close> package\<close>

text \<open>
  \<open>binary.parse(buffer)\<close> keeps a cursor \<open>offset\<close> into the buffer. A fixed-width read
  of \<open>bytes\<close> octets succeeds when \<open>offset + bytes <= buffer.length\<close>: it decodes the
  octets little-endian and advances the cursor. Otherwise it stores \<open>null\<close> under the
  field's name and leaves the cursor where it is; it raises no error. \<open>skip\<close> moves
  the cursor without looking at the buffer; \<open>buffer(name, size)\<close> stores the slice
  from the cursor to \<open>min(buffer.length, offset + size)\<close> and moves the cursor by
  \<open>size\<close>.
\<close>

fun decodeLEu :: "buffer \<Rightarrow> nat" where
  "decodeLEu [] = 0"
| "decodeLEu (b # bs) = unat b + 256 * decodeLEu bs"

definition word_le :: "nat \<Rightarrow> buffer \<Rightarrow> nat \<Rightarrow> nat option \<times> nat" where
  "word_le bytes buffer offset =
     (if offset + bytes \<le> length buffer
      then (Some (decodeLEu (buffer_slice buffer offset (offset + bytes))), offset + bytes)
      else (None, offset))"

definition skip :: "nat \<Rightarrow> nat \<Rightarrow> nat" where
  "skip bytes offset = offset + bytes"

definition buffer_field :: "nat \<Rightarrow> buffer \<Rightarrow> nat \<Rightarrow> buffer \<times> nat" where
  "buffer_field sz buffer offset =
     (buffer_slice buffer offset (min (length buffer) (offset + sz)), offset + sz)"

section \<open>The writer of the \<open>put\<close> package\<close>

text \<open>
  \<open>put()\<close> collects words and emits them in order. \<open>pad(n)\<close> emits \<open>n\<close> zero octets,
  \<open>word8(x)\<close> the octet \<open>(x >> 0) & 0xff\<close>, \<open>word32le(x)\<close> the four octets
  \<open>(x >> i) & 0xff\<close> for \<open>i = 0, 8, 16, 24\<close>, and \<open>put(buf)\<close> the bytes of \<open>buf\<close>.
  Each octet is the value reduced modulo 256, which is what \<open>of_nat\<close> into an
  8-bit word computes.
\<close>

definition pad :: "nat \<Rightarrow> buffer" where
  "pad bytes = replicate bytes 0"

definition word8 :: "nat \<Rightarrow> buffer" where
  "word8 x = [of_nat x]"

definition word32le :: "nat \<Rightarrow> buffer" where
  "word32le x =
     [of_nat x, of_nat (x div 2 ^ 8), of_nat (x div 2 ^ 16), of_nat (x div 2 ^ 24)]"

definition put :: "buffer \<Rightarrow> buffer" where
  "put b = b"

section \<open>Helpers of \<open>utils\<close>\<close>

text \<open>
  Modelled from the spec: \<open>utils.calculatePadLength\<close> is not among the sources. The
  specification gives it as \<open>padLength(offset, alignment)\<close>, the number of filler
  bytes needed so that \<open>offset + padLength\<close> is a multiple of \<open>alignment\<close>, with
  \<open>0 \<le> padLength(n, 4) < 4\<close>.
\<close>

definition calculatePadLength :: "nat \<Rightarrow> nat \<Rightarrow> nat" where
  "calculatePadLength offset alignment =
     (if offset mod alignment = 0 then 0 else alignment - offset mod alignment)"

text \<open>
  Modelled from the spec: \<open>utils.EMPTY_BUFFER\<close> is not among the sources. The
  specification says that the setup buffer of a subcommand result defaults to empty.
\<close>

definition EMPTY_BUFFER :: buffer where
  "EMPTY_BUFFER = []"

section \<open>Constants, messages and results\<close>

text \<open>
  The module \<open>constants\<close> is not among the sources; the tables and values that
  \<open>handle\<close> reads from it are taken as a parameter. A table is a partial map from
  the numeric code to the name.
\<close>

record constants =
  NTTRANS_SUBCOMMAND_TO_STRING :: "nat \<rightharpoonup> string"
  COMMAND_TO_STRING :: "nat \<rightharpoonup> string"
  SMB_MIN_LENGTH :: nat
  STATUS_SUCCESS :: nat
  STATUS_NOT_IMPLEMENTED :: nat
  STATUS_SMB_BAD_COMMAND :: nat

text \<open>The object \<open>parser.vars\<close>: the twelve decoded fields, under their names.\<close>

record params_obj =
  maxSetupCount :: "nat option"
  totalParameterCount :: "nat option"
  totalDataCount :: "nat option"
  maxParameterCount :: "nat option"
  maxDataCount :: "nat option"
  parameterCount :: "nat option"
  parameterOffset :: "nat option"
  dataCount :: "nat option"
  dataOffset :: "nat option"
  setupCount :: "nat option"
  function_code :: "nat option"
  setup_bytes :: buffer

text \<open>
  The message object: the full raw message \<open>buf\<close>, the decoded fields that
  \<open>_.assign(msg, paramsObj)\<close> copies onto it (kept together in \<open>vars\<close>), and
  \<open>subCommandId\<close>.
\<close>

record message =
  buf :: buffer
  vars :: params_obj
  subCommandId :: "nat option"

text \<open>
  A result object \<open>{status, params, data}\<close>, with the optional \<open>setup\<close> buffer of a
  subcommand's result.
\<close>

record result =
  status :: nat
  params :: buffer
  data :: buffer
  setup_buf :: "buffer option"

text \<open>
  A call either returns or raises. What a function hands to a completion callback is
  listed in the order of the calls, whether the callback runs at once or on a later
  tick.
\<close>

datatype completion = Returns | Throws

text \<open>
  The arguments a subcommand handler is called with (the callback apart), and what a
  handler does: the results it passes to its callback, and whether the call itself
  returns.
\<close>

record ('c, 's) handler_args =
  h_msg :: message
  h_commandId :: "nat option"
  h_commandParams :: buffer
  h_commandData :: buffer
  h_commandParamsOffset :: "nat option"
  h_commandDataOffset :: "nat option"
  h_connection :: 'c
  h_server :: 's

record handler_run =
  delivered :: "result list"
  finished :: completion

type_synonym ('c, 's) handler = "('c, 's) handler_args \<Rightarrow> handler_run"

text \<open>
  What one call of \<open>handle\<close> does: the subcommand handler calls it makes, the results
  it passes to \<open>cb\<close>, and whether it returns.
\<close>

record ('c, 's) run =
  dispatched :: "('c, 's) handler_args list"
  cb_calls :: "result list"
  completion :: completion

section \<open>Decoding the parameters (lines 72 to 87)\<close>

definition decode_params :: "buffer \<Rightarrow> params_obj" where
  "decode_params commandParams =
     (let (v_maxSetupCount, o1) = word_le 1 commandParams 0;
          o2 = skip 2 o1;
          (v_totalParameterCount, o3) = word_le 4 commandParams o2;
          (v_totalDataCount, o4) = word_le 4 commandParams o3;
          (v_maxParameterCount, o5) = word_le 4 commandParams o4;
          (v_maxDataCount, o6) = word_le 4 commandParams o5;
          (v_parameterCount, o7) = word_le 4 commandParams o6;
          (v_parameterOffset, o8) = word_le 4 commandParams o7;
          (v_dataCount, o9) = word_le 4 commandParams o8;
          (v_dataOffset, o10) = word_le 4 commandParams o9;
          (v_setupCount, o11) = word_le 1 commandParams o10;
          (v_function, o12) = word_le 2 commandParams o11;
          (v_setup, o13) = buffer_field (2 * to_number v_setupCount) commandParams o12
      in \<lparr> maxSetupCount = v_maxSetupCount,
           totalParameterCount = v_totalParameterCount,
           totalDataCount = v_totalDataCount,
           maxParameterCount = v_maxParameterCount,
           maxDataCount = v_maxDataCount,
           parameterCount = v_parameterCount,
           parameterOffset = v_parameterOffset,
           dataCount = v_dataCount,
           dataOffset = v_dataOffset,
           setupCount = v_setupCount,
           function_code = v_function,
           setup_bytes = v_setup \<rparr>)"

definition assign :: "message \<Rightarrow> params_obj \<Rightarrow> message" where
  "assign msg paramsObj = msg\<lparr> vars := paramsObj \<rparr>"

text \<open>The message after lines 72 to 89: the fields assigned, \<open>subCommandId\<close> set.\<close>

definition decode_request :: "message \<Rightarrow> buffer \<Rightarrow> message" where
  "decode_request msg0 commandParams =
     (let paramsObj = decode_params commandParams;
          msg = assign msg0 paramsObj
      in msg\<lparr> subCommandId := function_code (vars msg) \<rparr>)"

section \<open>Resolving the subcommand (lines 89 to 95)\<close>

text \<open>
  \<open>consts.NTTRANS_SUBCOMMAND_TO_STRING[msg.subCommandId]\<close> followed by the test
  \<open>!subCommand\<close>: a code with no entry gives \<open>undefined\<close>, so does \<open>null\<close>, and an
  empty name is falsy like \<open>undefined\<close>.
\<close>

definition resolve_subcommand :: "constants \<Rightarrow> nat option \<Rightarrow> string option" where
  "resolve_subcommand c subCmdId =
     (case subCmdId of
        None \<Rightarrow> None
      | Some f \<Rightarrow>
          (case NTTRANS_SUBCOMMAND_TO_STRING c f of
             None \<Rightarrow> None
           | Some subCommand \<Rightarrow> if subCommand = [] then None else Some subCommand))"

section \<open>Decoding the data (lines 97 to 108)\<close>

text \<open>
  The local slices \<open>NT_Trans_Parameters\<close> and \<open>NT_Trans_Data\<close> of the command's data
  bytes, with the final value of \<open>off\<close>.
\<close>

definition decode_data :: "buffer \<Rightarrow> nat \<Rightarrow> nat option \<Rightarrow> nat option \<Rightarrow> buffer \<times> buffer \<times> nat" where
  "decode_data commandData commandDataOffset v_parameterCount v_dataCount =
     (let off = calculatePadLength commandDataOffset 4;
          NT_Trans_Parameters = buffer_slice commandData off (to_number v_parameterCount);
          off = off + to_number v_parameterCount;
          off = off + calculatePadLength off 4;
          NT_Trans_Data = buffer_slice commandData off (to_number v_dataCount);
          off = off + to_number v_dataCount
      in (NT_Trans_Parameters, NT_Trans_Data, off))"

text \<open>The absolute slices of the full message, and the arguments of the handler call.\<close>

definition sub_params :: "message \<Rightarrow> buffer" where
  "sub_params msg =
     buffer_slice (buf msg) (to_number (parameterOffset (vars msg)))
       (to_number (parameterOffset (vars msg)) + to_number (parameterCount (vars msg)))"

definition sub_data :: "message \<Rightarrow> buffer" where
  "sub_data msg =
     buffer_slice (buf msg) (to_number (dataOffset (vars msg)))
       (to_number (dataOffset (vars msg)) + to_number (dataCount (vars msg)))"

definition handler_call :: "message \<Rightarrow> 'c \<Rightarrow> 's \<Rightarrow> ('c, 's) handler_args" where
  "handler_call msg connection server =
     \<lparr> h_msg = msg,
       h_commandId = subCommandId msg,
       h_commandParams = sub_params msg,
       h_commandData = sub_data msg,
       h_commandParamsOffset = parameterOffset (vars msg),
       h_commandDataOffset = dataOffset (vars msg),
       h_connection = connection,
       h_server = server \<rparr>"

section \<open>Building the response (lines 129 to 189)\<close>

text \<open>The offsets and paddings of the response, computed left to right.\<close>

record layout =
  l_paramsLength :: nat
  l_dataOffset :: nat
  l_pad1 :: nat
  l_subParamsOffset :: nat
  l_pad2 :: nat
  l_subDataOffset :: nat
  l_off :: nat

definition calc_layout :: "constants \<Rightarrow> buffer \<Rightarrow> buffer \<Rightarrow> buffer \<Rightarrow> layout" where
  "calc_layout c subParams subData setup =
     (let paramsLength = 36 + length setup;
          dataOffset' = SMB_MIN_LENGTH c + paramsLength;
          off = dataOffset';
          pad1 = calculatePadLength off 4;
          off = off + pad1;
          subParamsOffset = off;
          off = off + length subParams;
          pad2 = calculatePadLength off 4;
          off = off + pad2;
          subDataOffset = off;
          off = off + length subData
      in \<lparr> l_paramsLength = paramsLength, l_dataOffset = dataOffset', l_pad1 = pad1,
           l_subParamsOffset = subParamsOffset, l_pad2 = pad2,
           l_subDataOffset = subDataOffset, l_off = off \<rparr>)"

definition out_params :: "layout \<Rightarrow> buffer \<Rightarrow> buffer \<Rightarrow> buffer \<Rightarrow> buffer" where
  "out_params l subParams subData setup =
     pad 3
     @ word32le (length subParams)
     @ word32le (length subData)
     @ word32le (length subParams)
     @ word32le (l_subParamsOffset l)
     @ word32le 0
     @ word32le (length subData)
     @ word32le (l_subDataOffset l)
     @ word32le 0
     @ word8 (length setup)
     @ put setup"

definition out_data :: "layout \<Rightarrow> buffer \<Rightarrow> buffer \<Rightarrow> buffer" where
  "out_data l subParams subData =
     pad (l_pad1 l) @ put subParams @ pad (l_pad2 l) @ put subData"

text \<open>
  The callback \<open>handle\<close> gives to the subcommand handler: from the handler's result to
  the result passed to \<open>cb\<close>. A failed result is the same object with \<open>params\<close> and
  \<open>data\<close> overwritten; a successful one is rebuilt as \<open>{status, params, data}\<close>.
\<close>

definition handler_callback :: "constants \<Rightarrow> buffer \<Rightarrow> buffer \<Rightarrow> result \<Rightarrow> result" where
  "handler_callback c commandParams commandData res =
     (if status res \<noteq> STATUS_SUCCESS c
      then res\<lparr> params := commandParams, data := commandData \<rparr>
      else
        (let subParams = params res;
             subData = data res;
             setup = (case setup_buf res of None \<Rightarrow> EMPTY_BUFFER | Some s \<Rightarrow> s);
             l = calc_layout c subParams subData setup
         in \<lparr> status = STATUS_SUCCESS c,
              params = out_params l subParams subData setup,
              data = out_data l subParams subData,
              setup_buf = None \<rparr>))"

section \<open>The command handler (lines 70 to 199)\<close>

text \<open>
  On an unknown subcommand, line 92 evaluates \<open>self.sendErrorResponse\<close> and line 93
  calls \<open>callback\<close>. The file declares neither \<open>self\<close> nor \<open>callback\<close> (the completion
  parameter of \<open>handle\<close> is \<open>cb\<close>), so line 92 raises and \<open>cb\<close> is not reached.
  Line 110 evaluates \<open>consts.COMMAND_TO_STRING[commandId].toUpperCase()\<close> for the
  log line, which raises when the table has no entry for \<open>commandId\<close>.
\<close>

definition not_implemented :: "constants \<Rightarrow> buffer \<Rightarrow> buffer \<Rightarrow> result" where
  "not_implemented c commandParams commandData =
     \<lparr> status = STATUS_NOT_IMPLEMENTED c, params = commandParams, data = commandData,
       setup_buf = None \<rparr>"

definition handle ::
  "constants \<Rightarrow> (string \<rightharpoonup> ('c, 's) handler) \<Rightarrow> message \<Rightarrow> nat \<Rightarrow> buffer \<Rightarrow> buffer \<Rightarrow> nat \<Rightarrow> nat
     \<Rightarrow> 'c \<Rightarrow> 's \<Rightarrow> ('c, 's) run" where
  "handle c subCmdHandlers msg0 commandId commandParams commandData
       commandParamsOffset commandDataOffset connection server =
     (let msg = decode_request msg0 commandParams
      in case resolve_subcommand c (subCommandId msg) of
           None \<Rightarrow> \<lparr> dispatched = [], cb_calls = [], completion = Throws \<rparr>
         | Some subCommand \<Rightarrow>
             (let (NT_Trans_Parameters, NT_Trans_Data, off) =
                    decode_data commandData commandDataOffset
                      (parameterCount (vars msg)) (dataCount (vars msg))
              in case COMMAND_TO_STRING c commandId of
                   None \<Rightarrow> \<lparr> dispatched = [], cb_calls = [], completion = Throws \<rparr>
                 | Some commandName \<Rightarrow>
                     if to_number (parameterCount (vars msg)) < to_number (totalParameterCount (vars msg))
                        \<or> to_number (dataCount (vars msg)) < to_number (totalDataCount (vars msg))
                     then \<lparr> dispatched = [],
                            cb_calls = [not_implemented c commandParams commandData],
                            completion = Returns \<rparr>
                     else
                       (case subCmdHandlers subCommand of
                          Some handler \<Rightarrow>
                            (let args = handler_call msg connection server;
                                 hr = handler args
                             in \<lparr> dispatched = [args],
                                  cb_calls = map (handler_callback c commandParams commandData) (delivered hr),
                                  completion = finished hr \<rparr>)
                        | None \<Rightarrow>
                            \<lparr> dispatched = [],
                              cb_calls = [not_implemented c commandParams commandData],
                              completion = Returns \<rparr>)))"

section \<open>A sample environment\<close>

text \<open>
  For the examples below: the subcommand codes of the protocol with sample values of
  the constants, a writer of request parameter blocks with no setup words (the
  fields in the order the decoder reads them), two handlers, and a registry.
\<close>

definition word16le :: "nat \<Rightarrow> buffer" where
  "word16le x = [of_nat x, of_nat (x div 2 ^ 8)]"

definition nt_request :: "nat \<Rightarrow> nat \<Rightarrow> nat \<Rightarrow> nat \<Rightarrow> nat \<Rightarrow> nat \<Rightarrow> nat \<Rightarrow> buffer" where
  "nt_request tpc tdc pc po dc dof fc =
     [0] @ [0, 0] @ word32le tpc @ word32le tdc @ word32le 0 @ word32le 0
     @ word32le pc @ word32le po @ word32le dc @ word32le dof @ [0] @ word16le fc"

definition echo_handler :: "(unit, unit) handler" where
  "echo_handler args =
     \<lparr> delivered = [\<lparr> status = 0, params = h_commandParams args,
                      data = h_commandData args, setup_buf = None \<rparr>],
       finished = Returns \<rparr>"

definition denying_handler :: "(unit, unit) handler" where
  "denying_handler args =
     \<lparr> delivered = [\<lparr> status = 3221225506, params = [1, 2], data = [3],
                      setup_buf = None \<rparr>],
       finished = Returns \<rparr>"

definition long_setup_handler :: "(unit, unit) handler" where
  "long_setup_handler args =
     \<lparr> delivered = [\<lparr> status = 0, params = [], data = [],
                      setup_buf = Some (replicate 256 0) \<rparr>],
       finished = Returns \<rparr>"

definition sample_handlers :: "string \<rightharpoonup> (unit, unit) handler" where
  "sample_handlers =
     [''create'' \<mapsto> echo_handler, ''rename'' \<mapsto> denying_handler,
      ''ioctl'' \<mapsto> long_setup_handler]"

definition sample_msg :: "buffer \<Rightarrow> message" where
  "sample_msg b = \<lparr> buf = b, vars = decode_params [], subCommandId = None \<rparr>"

definition sample_consts :: constants where
  "sample_consts =
     \<lparr> NTTRANS_SUBCOMMAND_TO_STRING =
         [1 \<mapsto> ''create'', 2 \<mapsto> ''ioctl'', 3 \<mapsto> ''set_security_desc'',
          4 \<mapsto> ''notify_change'', 5 \<mapsto> ''rename'', 6 \<mapsto> ''query_security_desc''],
       COMMAND_TO_STRING = [160 \<mapsto> ''nt_transact''],
       SMB_MIN_LENGTH = 35,
       STATUS_SUCCESS = 0,
       STATUS_NOT_IMPLEMENTED = 3221225474,
       STATUS_SMB_BAD_COMMAND = 1441794 \<rparr>"

section \<open>Facts about the wire primitives\<close>

lemma buffer_slice_eq: "buffer_slice b s e = take (min e (length b) - min s (length b)) (drop (min s (length b)) b)"
  by (auto simp: buffer_slice_def Let_def min_def)

lemma buffer_slice_in_range: "s \<le> e \<Longrightarrow> e \<le> length b \<Longrightarrow> buffer_slice b s e = take (e - s) (drop s b)"
  by (simp add: buffer_slice_def Let_def)

lemma length_buffer_slice: "length (buffer_slice b s e) = min e (length b) - min s (length b)"
  by (auto simp: buffer_slice_def Let_def min_def)

lemma word_le_ok:
  "off + n \<le> length b \<Longrightarrow> word_le n b off = (Some (decodeLEu (take n (drop off b))), off + n)"
  by (simp add: word_le_def buffer_slice_in_range)

lemma word_le_short:
  "length b < off + n \<Longrightarrow> word_le n b off = (None, off)"
  by (simp add: word_le_def)

lemma decode_params_complete:
  assumes "38 \<le> length cp"
  shows "decode_params cp =
     \<lparr> maxSetupCount = Some (decodeLEu (take 1 cp)),
       totalParameterCount = Some (decodeLEu (take 4 (drop 3 cp))),
       totalDataCount = Some (decodeLEu (take 4 (drop 7 cp))),
       maxParameterCount = Some (decodeLEu (take 4 (drop 11 cp))),
       maxDataCount = Some (decodeLEu (take 4 (drop 15 cp))),
       parameterCount = Some (decodeLEu (take 4 (drop 19 cp))),
       parameterOffset = Some (decodeLEu (take 4 (drop 23 cp))),
       dataCount = Some (decodeLEu (take 4 (drop 27 cp))),
       dataOffset = Some (decodeLEu (take 4 (drop 31 cp))),
       setupCount = Some (decodeLEu (take 1 (drop 35 cp))),
       function_code = Some (decodeLEu (take 2 (drop 36 cp))),
       setup_bytes = buffer_slice cp 38 (38 + 2 * decodeLEu (take 1 (drop 35 cp))) \<rparr>"
proof -
  have "min (length cp) (38 + n) = min (38 + n) (length cp)" for n
    by (simp add: min.commute)
  then show ?thesis
    using assms
    by (simp add: decode_params_def word_le_ok skip_def buffer_field_def to_number_def
             buffer_slice_def Let_def numeral_3_eq_3
        del: decodeLEu.simps)
qed

lemma decodeLEu_word32le: "decodeLEu (word32le n) = n mod 2 ^ 32"
proof -
  have e1: "n div 65536 = n div 256 div 256"
    by (simp add: div_mult2_eq [symmetric])
  have e2: "n div 16777216 = n div 256 div 256 div 256"
    by (simp add: div_mult2_eq [symmetric])
  have "n mod 2 ^ 32 = n mod (256 * (256 * (256 * 256)))" by simp
  also have "\<dots> = n mod 256 + 256 * (n div 256 mod 256 + 256 * (n div 65536 mod 256 + 256 * (n div 16777216 mod 256)))"
    unfolding e1 e2 by (simp only: mod_mult2_eq div_mult2_eq) simp
  finally show ?thesis
    by (simp add: word32le_def unat_of_nat)
qed

lemma decodeLEu_word16le: "decodeLEu (word16le n) = n mod 2 ^ 16"
proof -
  have "n mod 2 ^ 16 = n mod (256 * 256)" by simp
  also have "\<dots> = n mod 256 + 256 * (n div 256 mod 256)"
    by (simp only: mod_mult2_eq)
  finally show ?thesis
    by (simp add: word16le_def unat_of_nat)
qed

lemma length_word32le: "length (word32le n) = 4"
  by (simp add: word32le_def)

lemma length_word16le: "length (word16le n) = 2"
  by (simp add: word16le_def)

lemma length_nt_request: "length (nt_request tpc tdc pc po dc dof fc) = 38"
  by (simp add: nt_request_def length_word32le length_word16le)

lemma decode_params_nt_request:
  "decode_params (nt_request tpc tdc pc po dc dof fc) =
     \<lparr> maxSetupCount = Some 0,
       totalParameterCount = Some (tpc mod 2 ^ 32),
       totalDataCount = Some (tdc mod 2 ^ 32),
       maxParameterCount = Some 0,
       maxDataCount = Some 0,
       parameterCount = Some (pc mod 2 ^ 32),
       parameterOffset = Some (po mod 2 ^ 32),
       dataCount = Some (dc mod 2 ^ 32),
       dataOffset = Some (dof mod 2 ^ 32),
       setupCount = Some 0,
       function_code = Some (fc mod 2 ^ 16),
       setup_bytes = [] \<rparr>"
proof -
  have d32: "decodeLEu [word_of_nat n, word_of_nat (n div 256), word_of_nat (n div 65536),
      word_of_nat (n div 16777216)] = n mod 4294967296" for n
    using decodeLEu_word32le [of n] by (simp add: word32le_def del: decodeLEu.simps)
  have d16: "decodeLEu [word_of_nat n, word_of_nat (n div 256)] = n mod 65536" for n
    using decodeLEu_word16le [of n] by (simp add: word16le_def del: decodeLEu.simps)
  show ?thesis
    apply (subst decode_params_complete)
     apply (simp add: length_nt_request)
    apply (simp add: nt_request_def word32le_def word16le_def buffer_slice_def del: decodeLEu.simps)
    apply (simp only: d32 d16)
    apply simp
    done
qed

lemma decode_params_short_35:
  assumes "length cp < 35"
  shows "dataOffset (decode_params cp) = None"
proof -
  consider "length cp < 1"
    | "1 \<le> length cp" "length cp < 7"
    | "7 \<le> length cp" "length cp < 11"
    | "11 \<le> length cp" "length cp < 15"
    | "15 \<le> length cp" "length cp < 19"
    | "19 \<le> length cp" "length cp < 23"
    | "23 \<le> length cp" "length cp < 27"
    | "27 \<le> length cp" "length cp < 31"
    | "31 \<le> length cp" "length cp < 35"
    using assms by linarith
  then show ?thesis
  proof cases
    case 1
    then show ?thesis
      by (simp add: decode_params_def word_le_ok word_le_short skip_def buffer_field_def del: decodeLEu.simps; simp split: prod.splits)
  next
    case 2
    then show ?thesis
      by (simp add: decode_params_def word_le_ok word_le_short skip_def buffer_field_def del: decodeLEu.simps; simp split: prod.splits)
  next
    case 3
    then show ?thesis
      by (simp add: decode_params_def word_le_ok word_le_short skip_def buffer_field_def del: decodeLEu.simps; simp split: prod.splits)
  next
    case 4
    then show ?thesis
      by (simp add: decode_params_def word_le_ok word_le_short skip_def buffer_field_def del: decodeLEu.simps; simp split: prod.splits)
  next
    case 5
    then show ?thesis
      by (simp add: decode_params_def word_le_ok word_le_short skip_def buffer_field_def del: decodeLEu.simps; simp split: prod.splits)
  next
    case 6
    then show ?thesis
      by (simp add: decode_params_def word_le_ok word_le_short skip_def buffer_field_def del: decodeLEu.simps; simp split: prod.splits)
  next
    case 7
    then show ?thesis
      by (simp add: decode_params_def word_le_ok word_le_short skip_def buffer_field_def del: decodeLEu.simps; simp split: prod.splits)
  next
    case 8
    then show ?thesis
      by (simp add: decode_params_def word_le_ok word_le_short skip_def buffer_field_def del: decodeLEu.simps; simp split: prod.splits)
  next
    case 9
    then show ?thesis
      by (simp add: decode_params_def word_le_ok word_le_short skip_def buffer_field_def del: decodeLEu.simps; simp split: prod.splits)
  qed
qed

lemma decode_params_short_38:
  assumes "35 \<le> length cp" and "length cp < 38"
  shows "function_code (decode_params cp) = None"
proof -
  consider "length cp < 36" | "36 \<le> length cp"
    by linarith
  then show ?thesis
  proof cases
    case 1
    with assms show ?thesis
      by (simp add: decode_params_def word_le_ok word_le_short skip_def buffer_field_def del: decodeLEu.simps; simp split: prod.splits)
  next
    case 2
    with assms show ?thesis
      by (simp add: decode_params_def word_le_ok word_le_short skip_def buffer_field_def del: decodeLEu.simps; simp split: prod.splits)
  qed
qed

lemma decode_params_six_bytes:
  "decode_params [0, 0, 0, 0, 1, 0]
     = \<lparr> maxSetupCount = Some 0, totalParameterCount = None, totalDataCount = None,
         maxParameterCount = None, maxDataCount = None, parameterCount = None,
         parameterOffset = None, dataCount = None, dataOffset = None,
         setupCount = Some 0, function_code = Some 1, setup_bytes = [] \<rparr>"
  by (simp add: decode_params_def word_le_def skip_def buffer_field_def buffer_slice_def
        to_number_def)

lemma calculatePadLength_4_bounds: "calculatePadLength n 4 < 4"
  by (simp add: calculatePadLength_def)

lemma calculatePadLength_4_aligned: "(n + calculatePadLength n 4) mod 4 = 0"
  by (simp add: calculatePadLength_def) presburger

section \<open>The paths through \<open>handle\<close>\<close>

lemma handle_unknown_subcommand:
  "resolve_subcommand c (function_code (decode_params cp)) = None \<Longrightarrow>
   handle c reg msg cid cp cd cpo cdo conn srv
     = \<lparr> dispatched = [], cb_calls = [], completion = Throws \<rparr>"
  by (simp add: handle_def decode_request_def assign_def Let_def)

lemma handle_not_implemented:
  assumes "resolve_subcommand c (function_code (decode_params cp)) = Some name"
      and "COMMAND_TO_STRING c cid = Some cname"
      and "to_number (parameterCount (decode_params cp)) < to_number (totalParameterCount (decode_params cp))
           \<or> to_number (dataCount (decode_params cp)) < to_number (totalDataCount (decode_params cp))
           \<or> reg name = None"
  shows "handle c reg msg cid cp cd cpo cdo conn srv
     = \<lparr> dispatched = [],
         cb_calls = [\<lparr> status = STATUS_NOT_IMPLEMENTED c, params = cp, data = cd, setup_buf = None \<rparr>],
         completion = Returns \<rparr>"
  using assms
  by (auto simp add: handle_def decode_request_def assign_def Let_def not_implemented_def
      split: prod.splits)

lemma handle_dispatch:
  assumes "resolve_subcommand c (function_code (decode_params cp)) = Some name"
      and "COMMAND_TO_STRING c cid = Some cname"
      and "\<not> to_number (parameterCount (decode_params cp)) < to_number (totalParameterCount (decode_params cp))"
      and "\<not> to_number (dataCount (decode_params cp)) < to_number (totalDataCount (decode_params cp))"
      and "reg name = Some h"
  shows "handle c reg msg cid cp cd cpo cdo conn srv
     = \<lparr> dispatched = [handler_call (decode_request msg cp) conn srv],
         cb_calls = map (handler_callback c cp cd)
                      (delivered (h (handler_call (decode_request msg cp) conn srv))),
         completion = finished (h (handler_call (decode_request msg cp) conn srv)) \<rparr>"
  using assms
  by (simp add: handle_def Let_def decode_request_def assign_def split: prod.splits)

lemma handle_dispatch_nth:
  assumes "resolve_subcommand c (function_code (decode_params cp)) = Some name"
      and "COMMAND_TO_STRING c cid = Some cname"
      and "\<not> to_number (parameterCount (decode_params cp)) < to_number (totalParameterCount (decode_params cp))"
      and "\<not> to_number (dataCount (decode_params cp)) < to_number (totalDataCount (decode_params cp))"
      and "reg name = Some h"
      and "delivered (h (handler_call (decode_request msg cp) conn srv)) = results"
      and "i < length results"
  shows "cb_calls (handle c reg msg cid cp cd cpo cdo conn srv) ! i
           = handler_callback c cp cd (results ! i)"
  using assms by (simp add: handle_dispatch)

lemma sample_resolve:
  "resolve_subcommand sample_consts (function_code (decode_params (nt_request tpc tdc pc po dc dof fc)))
     = (if fc mod 65536 = 1 then Some ''create''
        else if fc mod 65536 = 2 then Some ''ioctl''
        else if fc mod 65536 = 3 then Some ''set_security_desc''
        else if fc mod 65536 = 4 then Some ''notify_change''
        else if fc mod 65536 = 5 then Some ''rename''
        else if fc mod 65536 = 6 then Some ''query_security_desc''
        else None)"
  by (simp add: decode_params_nt_request resolve_subcommand_def sample_consts_def)

lemma handle_calls_cb_once_when_resolved:
  assumes "resolve_subcommand c (function_code (decode_params cp)) = Some name"
      and "COMMAND_TO_STRING c cid = Some cname"
      and "\<And>h args. reg name = Some h \<Longrightarrow> length (delivered (h args)) = 1"
  shows "length (cb_calls (handle c reg msg cid cp cd cpo cdo conn srv)) = 1"
proof (cases "to_number (parameterCount (decode_params cp)) < to_number (totalParameterCount (decode_params cp))
           \<or> to_number (dataCount (decode_params cp)) < to_number (totalDataCount (decode_params cp))
           \<or> reg name = None")
  case True
  with assms(1,2) show ?thesis
    by (simp add: handle_not_implemented [where name = name and cname = cname])
next
  case False
  then obtain h where h: "reg name = Some h" by auto
  from False assms(1,2) h show ?thesis
    by (simp add: handle_dispatch [where name = name and cname = cname and h = h] assms(3))
qed

lemma echo_of_nothing:
  "handler_callback sample_consts cp cd
       \<lparr> status = 0, params = [], data = [], setup_buf = None \<rparr>
     = \<lparr> status = 0,
         params = [0, 0, 0,  0, 0, 0, 0,  0, 0, 0, 0,  0, 0, 0, 0,  72, 0, 0, 0,  0, 0, 0, 0,
                   0, 0, 0, 0,  72, 0, 0, 0,  0, 0, 0, 0,  0],
         data = [0],
         setup_buf = None \<rparr>"
  by (simp add: handler_callback_def sample_consts_def EMPTY_BUFFER_def calc_layout_def
        Let_def calculatePadLength_def out_params_def out_data_def pad_def put_def word8_def
        word32le_def numeral_3_eq_3)

section \<open>Truncated parameter blocks\<close>

text \<open>
  C5, as the code has it: decoding a parameter block shorter than the 38 bytes of
  the fixed header plus the \<open>2 * setupCount\<close> setup bytes does not fail, and nothing
  named TruncatedInput is raised. A field that does not fit in the bytes left at the
  cursor is \<open>null\<close>: with fewer than 35 bytes \<open>dataOffset\<close> is, with 35 to 37 bytes the
  function code is. With 38 bytes or more the setup bytes are what the buffer holds
  after byte 38, fewer than \<open>2 * setupCount\<close>, so nothing outside the buffer is read.
  \<open>handle\<close> goes on with the fields so decoded.
\<close>

theorem truncated_header_decodes_to_nulls:
  assumes "length commandParams
             < 38 + 2 * to_number (setupCount (decode_params commandParams))"
  shows "(length commandParams < 35 \<longrightarrow> dataOffset (decode_params commandParams) = None)
       \<and> (35 \<le> length commandParams \<and> length commandParams < 38
            \<longrightarrow> function_code (decode_params commandParams) = None)
       \<and> (38 \<le> length commandParams
            \<longrightarrow> setup_bytes (decode_params commandParams) = drop 38 commandParams
              \<and> length (setup_bytes (decode_params commandParams))
                  < 2 * to_number (setupCount (decode_params commandParams)))
       \<and> vars (decode_request msg commandParams) = decode_params commandParams"
proof (intro conjI impI)
  assume "length commandParams < 35"
  then show "dataOffset (decode_params commandParams) = None"
    by (rule decode_params_short_35)
next
  assume "35 \<le> length commandParams \<and> length commandParams < 38"
  then show "function_code (decode_params commandParams) = None"
    by (simp add: decode_params_short_38)
next
  assume long: "38 \<le> length commandParams"
  with assms show eq: "setup_bytes (decode_params commandParams) = drop 38 commandParams"
    by (simp add: decode_params_complete to_number_def buffer_slice_eq)
  from assms long show "length (setup_bytes (decode_params commandParams))
      < 2 * to_number (setupCount (decode_params commandParams))"
    unfolding eq by simp
next
  show "vars (decode_request msg commandParams) = decode_params commandParams"
    by (simp add: decode_request_def assign_def Let_def)
qed

theorem truncated_header_decodes_to_nulls_witness:
  "length [0, 0, 0, 0, 1, 0 :: byte]
     < 38 + 2 * to_number (setupCount (decode_params [0, 0, 0, 0, 1, 0]))
   \<and> dataOffset (decode_params [0, 0, 0, 0, 1, 0]) = None
   \<and> function_code (decode_params [0, 0, 0, 0, 1, 0]) = Some 1
   \<and> length (replicate 35 0 @ [2, 1, 0, 9 :: byte])
     < 38 + 2 * to_number (setupCount (decode_params (replicate 35 0 @ [2, 1, 0, 9])))
   \<and> setup_bytes (decode_params (replicate 35 0 @ [2, 1, 0, 9])) = [9]"
proof -
  have six: "length [0, 0, 0, 0, 1, 0 :: byte]
     < 38 + 2 * to_number (setupCount (decode_params [0, 0, 0, 0, 1, 0]))"
    by (simp add: decode_params_six_bytes to_number_def)
  have sc: "setupCount (decode_params (replicate 35 0 @ [2, 1, 0, 9])) = Some 2"
    by (simp add: decode_params_complete)
  have long: "length (replicate 35 0 @ [2, 1, 0, 9 :: byte])
     < 38 + 2 * to_number (setupCount (decode_params (replicate 35 0 @ [2, 1, 0, 9])))"
    by (simp add: sc to_number_def)
  show ?thesis
    using truncated_header_decodes_to_nulls [OF six, of "sample_msg []"]
          truncated_header_decodes_to_nulls [OF long, of "sample_msg []"] six long
    by (simp add: decode_params_six_bytes)
qed

text \<open>
  C5 as stated fails: a six-byte parameter block is served like any other request: the decoder reads
  \<open>setupCount\<close> from byte 3 and the function code 1 from bytes 4 and 5, every 32-bit
  field is \<open>null\<close>, the handler registered for the subcommand is called with empty
  slices, and \<open>cb\<close> receives its successful result, assembled.
\<close>

theorem truncated_header_is_served:
  "length [0, 0, 0, 0, 1, 0 :: byte] < 38
   \<and> cb_calls (handle sample_consts sample_handlers (sample_msg []) 160 [0, 0, 0, 0, 1, 0] []
         35 73 () ())
       = [\<lparr> status = 0,
            params = [0, 0, 0,  0, 0, 0, 0,  0, 0, 0, 0,  0, 0, 0, 0,  72, 0, 0, 0,  0, 0, 0, 0,
                      0, 0, 0, 0,  72, 0, 0, 0,  0, 0, 0, 0,  0],
            data = [0],
            setup_buf = None \<rparr>]
   \<and> completion (handle sample_consts sample_handlers (sample_msg []) 160 [0, 0, 0, 0, 1, 0] []
         35 73 () ()) = Returns
   \<and> STATUS_SUCCESS sample_consts = 0"
proof -
  let ?cp = "[0, 0, 0, 0, 1, 0 :: byte]"
  have r: "resolve_subcommand sample_consts (function_code (decode_params ?cp)) = Some ''create''"
    by (simp add: decode_params_six_bytes resolve_subcommand_def sample_consts_def)
  have k: "COMMAND_TO_STRING sample_consts 160 = Some ''nt_transact''"
    by (simp add: sample_consts_def)
  have c1: "\<not> to_number (parameterCount (decode_params ?cp))
       < to_number (totalParameterCount (decode_params ?cp))"
    by (simp add: decode_params_six_bytes to_number_def)
  have c2: "\<not> to_number (dataCount (decode_params ?cp))
       < to_number (totalDataCount (decode_params ?cp))"
    by (simp add: decode_params_six_bytes to_number_def)
  have h: "sample_handlers ''create'' = Some echo_handler"
    by (simp add: sample_handlers_def)
  have e: "echo_handler (handler_call (decode_request (sample_msg []) ?cp) () ())
      = \<lparr> delivered = [\<lparr> status = 0, params = [], data = [], setup_buf = None \<rparr>],
          finished = Returns \<rparr>"
    by (simp add: echo_handler_def handler_call_def sub_params_def sub_data_def
          decode_request_def assign_def sample_msg_def buffer_slice_def Let_def)
  have "handle sample_consts sample_handlers (sample_msg []) 160 ?cp [] 35 73 () ()
      = \<lparr> dispatched = [handler_call (decode_request (sample_msg []) ?cp) () ()],
          cb_calls = [handler_callback sample_consts ?cp []
                        \<lparr> status = 0, params = [], data = [], setup_buf = None \<rparr>],
          completion = Returns \<rparr>"
    using handle_dispatch [where name = "''create''" and cname = "''nt_transact''"
            and h = echo_handler and reg = sample_handlers and c = sample_consts and cp = ?cp
            and cid = 160 and msg = "sample_msg []" and cd = "[]" and cpo = 35 and cdo = 73
            and conn = "()" and srv = "()", OF r k c1 c2 h]
    by (simp add: e)
  moreover have "STATUS_SUCCESS sample_consts = 0"
    by (simp add: sample_consts_def)
  ultimately show ?thesis
    by (simp add: echo_of_nothing)
qed

lemma buf_decode_request: "buf (decode_request msg cp) = buf msg"
  by (simp add: decode_request_def assign_def Let_def)

lemma vars_decode_request: "vars (decode_request msg cp) = decode_params cp"
  by (simp add: decode_request_def assign_def Let_def)

section \<open>Offsets outside the message\<close>

text \<open>
  C2, as the code has it: \<open>handle\<close> does not validate \<open>parameterOffset\<close> or \<open>dataOffset\<close>
  and raises nothing named MalformedOffset. Whatever the header declares, a request
  that reaches a registered handler hands it \<open>msg.buf.slice(parameterOffset,
  parameterOffset + parameterCount)\<close> and \<open>msg.buf.slice(dataOffset, dataOffset +
  dataCount)\<close> with both indices clamped to the length of the message: a contiguous
  part of the message, empty when the offset is at or past its end, so no byte
  outside the message is read. Processing goes on: every result the handler delivers
  is answered, and \<open>handle\<close> returns when the handler does.
\<close>

theorem out_of_range_offsets_are_clamped:
  assumes "resolve_subcommand c (function_code (decode_params commandParams)) = Some subCommand"
      and "COMMAND_TO_STRING c commandId = Some commandName"
      and "\<not> to_number (parameterCount (decode_params commandParams))
               < to_number (totalParameterCount (decode_params commandParams))"
      and "\<not> to_number (dataCount (decode_params commandParams))
               < to_number (totalDataCount (decode_params commandParams))"
      and "subCmdHandlers subCommand = Some handler"
  shows "let po = to_number (parameterOffset (decode_params commandParams));
             pc = to_number (parameterCount (decode_params commandParams));
             dof = to_number (dataOffset (decode_params commandParams));
             dc = to_number (dataCount (decode_params commandParams));
             len = length (buf msg);
             run = handle c subCmdHandlers msg commandId commandParams commandData
                     commandParamsOffset commandDataOffset connection server
         in map h_commandParams (dispatched run)
              = [take (min (po + pc) len - min po len) (drop (min po len) (buf msg))]
            \<and> map h_commandData (dispatched run)
              = [take (min (dof + dc) len - min dof len) (drop (min dof len) (buf msg))]
            \<and> (len \<le> po \<longrightarrow> map h_commandParams (dispatched run) = [[]])
            \<and> (len \<le> dof \<longrightarrow> map h_commandData (dispatched run) = [[]])
            \<and> cb_calls run
              = map (handler_callback c commandParams commandData)
                  (delivered (handler (handler_call (decode_request msg commandParams)
                     connection server)))
            \<and> completion run
              = finished (handler (handler_call (decode_request msg commandParams)
                     connection server))"
proof -
  have run: "handle c subCmdHandlers msg commandId commandParams commandData
        commandParamsOffset commandDataOffset connection server
      = \<lparr> dispatched = [handler_call (decode_request msg commandParams) connection server],
          cb_calls = map (handler_callback c commandParams commandData)
            (delivered (handler (handler_call (decode_request msg commandParams)
               connection server))),
          completion = finished (handler (handler_call (decode_request msg commandParams)
               connection server)) \<rparr>"
    using assms by (rule handle_dispatch)
  show ?thesis
    unfolding Let_def run
    by (simp add: handler_call_def sub_params_def sub_data_def buf_decode_request
          vars_decode_request buffer_slice_eq)
qed

theorem out_of_range_offsets_are_clamped_witness:
  "resolve_subcommand sample_consts (function_code (decode_params (nt_request 4 0 4 1000 0 80 1)))
     = Some ''create''
   \<and> COMMAND_TO_STRING sample_consts 160 = Some ''nt_transact''
   \<and> sample_handlers ''create'' = Some echo_handler
   \<and> to_number (parameterOffset (decode_params (nt_request 4 0 4 1000 0 80 1))) = 1000
   \<and> length (buf (sample_msg (replicate 84 0))) = 84
   \<and> map h_commandParams (dispatched (handle sample_consts sample_handlers
         (sample_msg (replicate 84 0)) 160 (nt_request 4 0 4 1000 0 80 1) [] 35 73 () ())) = [[]]"
proof -
  let ?cp = "nt_request 4 0 4 1000 0 80 1"
  have r: "resolve_subcommand sample_consts (function_code (decode_params ?cp)) = Some ''create''"
    by (simp add: sample_resolve)
  have k: "COMMAND_TO_STRING sample_consts 160 = Some ''nt_transact''"
    by (simp add: sample_consts_def)
  have c1: "\<not> to_number (parameterCount (decode_params ?cp))
       < to_number (totalParameterCount (decode_params ?cp))"
    by (simp add: decode_params_nt_request to_number_def)
  have c2: "\<not> to_number (dataCount (decode_params ?cp))
       < to_number (totalDataCount (decode_params ?cp))"
    by (simp add: decode_params_nt_request to_number_def)
  have h: "sample_handlers ''create'' = Some echo_handler"
    by (simp add: sample_handlers_def)
  have po: "to_number (parameterOffset (decode_params ?cp)) = 1000"
    by (simp add: decode_params_nt_request to_number_def)
  have len: "length (buf (sample_msg (replicate 84 0))) = 84"
    by (simp add: sample_msg_def)
  note inst = out_of_range_offsets_are_clamped
            [where c = sample_consts and commandParams = ?cp
               and subCmdHandlers = sample_handlers and handler = echo_handler
               and msg = "sample_msg (replicate 84 0)" and connection = "()" and server = "()"
               and commandId = 160 and commandData = "[]"
               and commandParamsOffset = 35 and commandDataOffset = 73,
             OF r k c1 c2 h]
  from inst [unfolded Let_def po len, THEN conjunct2, THEN conjunct2, THEN conjunct1]
  have "map h_commandParams (dispatched (handle sample_consts sample_handlers
         (sample_msg (replicate 84 0)) 160 ?cp [] 35 73 () ())) = [[]]"
    by simp
  then show ?thesis
    using r k h po len by simp
qed

text \<open>
  C2 as stated fails: a header that declares \<open>parameterOffset = 1000\<close> in a message of
  84 bytes is not rejected. The handler is called with an empty parameter slice and
  \<open>cb\<close> receives its successful result, assembled.
\<close>

theorem out_of_range_offset_is_served:
  "to_number (parameterOffset (decode_params (nt_request 4 0 4 1000 0 80 1))) = 1000
   \<and> to_number (parameterCount (decode_params (nt_request 4 0 4 1000 0 80 1))) = 4
   \<and> length (buf (sample_msg (replicate 84 0))) = 84
   \<and> map h_commandParams (dispatched (handle sample_consts sample_handlers
         (sample_msg (replicate 84 0)) 160 (nt_request 4 0 4 1000 0 80 1) [] 35 73 () ())) = [[]]
   \<and> cb_calls (handle sample_consts sample_handlers (sample_msg (replicate 84 0)) 160
         (nt_request 4 0 4 1000 0 80 1) [] 35 73 () ())
       = [\<lparr> status = 0,
            params = [0, 0, 0,  0, 0, 0, 0,  0, 0, 0, 0,  0, 0, 0, 0,  72, 0, 0, 0,  0, 0, 0, 0,
                      0, 0, 0, 0,  72, 0, 0, 0,  0, 0, 0, 0,  0],
            data = [0],
            setup_buf = None \<rparr>]
   \<and> completion (handle sample_consts sample_handlers (sample_msg (replicate 84 0)) 160
         (nt_request 4 0 4 1000 0 80 1) [] 35 73 () ()) = Returns
   \<and> STATUS_SUCCESS sample_consts = 0"
proof -
  let ?cp = "nt_request 4 0 4 1000 0 80 1"
  let ?msg = "sample_msg (replicate 84 0)"
  have r: "resolve_subcommand sample_consts (function_code (decode_params ?cp)) = Some ''create''"
    by (simp add: sample_resolve)
  have k: "COMMAND_TO_STRING sample_consts 160 = Some ''nt_transact''"
    by (simp add: sample_consts_def)
  have c1: "\<not> to_number (parameterCount (decode_params ?cp))
       < to_number (totalParameterCount (decode_params ?cp))"
    by (simp add: decode_params_nt_request to_number_def)
  have c2: "\<not> to_number (dataCount (decode_params ?cp))
       < to_number (totalDataCount (decode_params ?cp))"
    by (simp add: decode_params_nt_request to_number_def)
  have h: "sample_handlers ''create'' = Some echo_handler"
    by (simp add: sample_handlers_def)
  have args: "h_commandParams (handler_call (decode_request ?msg ?cp) () ()) = []"
      "h_commandData (handler_call (decode_request ?msg ?cp) () ()) = []"
    by (simp_all add: handler_call_def sub_params_def sub_data_def buf_decode_request
          vars_decode_request decode_params_nt_request to_number_def sample_msg_def
          buffer_slice_eq)
  have e: "echo_handler (handler_call (decode_request ?msg ?cp) () ())
      = \<lparr> delivered = [\<lparr> status = 0, params = [], data = [], setup_buf = None \<rparr>],
          finished = Returns \<rparr>"
    unfolding echo_handler_def args by simp
  have "handle sample_consts sample_handlers ?msg 160 ?cp [] 35 73 () ()
      = \<lparr> dispatched = [handler_call (decode_request ?msg ?cp) () ()],
          cb_calls = [handler_callback sample_consts ?cp []
                        \<lparr> status = 0, params = [], data = [], setup_buf = None \<rparr>],
          completion = Returns \<rparr>"
    using handle_dispatch [where name = "''create''" and cname = "''nt_transact''"
            and h = echo_handler and reg = sample_handlers and c = sample_consts and cp = ?cp
            and cid = 160 and msg = ?msg and cd = "[]" and cpo = 35 and cdo = 73
            and conn = "()" and srv = "()", OF r k c1 c2 h]
    unfolding e by simp
  moreover have "STATUS_SUCCESS sample_consts = 0"
    by (simp add: sample_consts_def)
  moreover have "to_number (parameterOffset (decode_params ?cp)) = 1000"
      "to_number (parameterCount (decode_params ?cp)) = 4"
    by (simp_all add: decode_params_nt_request to_number_def)
  moreover have "length (buf ?msg) = 84"
    by (simp add: sample_msg_def)
  moreover note args
  ultimately show ?thesis
    by (simp add: echo_of_nothing)
qed

section \<open>Unknown subcommands\<close>

text \<open>
  C1: the claim is that a request whose function code is not in the subcommand table
  is answered with status \<open>STATUS_SMB_BAD_COMMAND\<close> and the original buffers. At function
  code \<open>0xFFFF\<close> the code raises at line 92 instead: \<open>cb\<close> receives nothing.
\<close>

theorem unknown_subcommand_raises:
  "handle sample_consts sample_handlers (sample_msg []) 160 (nt_request 0 0 0 76 0 76 65535)
      [1, 2, 3] 35 73 () ()
     = \<lparr> dispatched = [], cb_calls = [], completion = Throws \<rparr>"
  by (rule handle_unknown_subcommand) (simp add: sample_resolve)

text \<open>
  C4: the claim is that \<open>cb\<close> is called exactly once on every path. With handlers that
  each deliver exactly one result, a complete request whose function code is \<open>0xFFFF\<close>,
  which the subcommand table does not hold, ends with \<open>cb\<close> never called. On every other path \<open>cb\<close> is called exactly once
  (\<open>handle_calls_cb_once_when_resolved\<close>).
\<close>

theorem unknown_subcommand_never_calls_cb:
  "length (delivered (echo_handler a)) = 1
   \<and> length (delivered (denying_handler a)) = 1
   \<and> length (delivered (long_setup_handler a)) = 1
   \<and> length (cb_calls (handle sample_consts sample_handlers (sample_msg (replicate 76 0 @ [1, 2, 3, 4]))
        160 (nt_request 4 0 4 76 0 80 65535) [0, 0, 0, 1, 2, 3, 4] 35 73 () ())) = 0
   \<and> completion (handle sample_consts sample_handlers (sample_msg (replicate 76 0 @ [1, 2, 3, 4]))
        160 (nt_request 4 0 4 76 0 80 65535) [0, 0, 0, 1, 2, 3, 4] 35 73 () ()) = Throws"
proof -
  have "handle sample_consts sample_handlers (sample_msg (replicate 76 0 @ [1, 2, 3, 4]))
        160 (nt_request 4 0 4 76 0 80 65535) [0, 0, 0, 1, 2, 3, 4] 35 73 () ()
      = \<lparr> dispatched = [], cb_calls = [], completion = Throws \<rparr>"
    by (rule handle_unknown_subcommand) (simp add: sample_resolve)
  then show ?thesis
    by (simp add: echo_handler_def denying_handler_def long_setup_handler_def)
qed

section \<open>The local slices\<close>

text \<open>
  C3: the claim is that the local parameter slice starts \<open>padLength(commandDataOffset, 4)\<close>
  bytes in and has length \<open>parameterCount\<close>, and that the local data slice after it has
  length \<open>dataCount\<close>. Lines 100 and 104 pass the count as the end index of
  \<open>slice\<close>: with the data bytes at offset 73 (three bytes of padding, four parameter
  bytes, one byte of padding, four data bytes) and both counts 4, the parameter slice
  is the single byte at index 3 and the data slice is empty.
\<close>

theorem local_slices_use_count_as_end:
  "calculatePadLength 73 4 = 3
   \<and> decode_data [0, 0, 0, 1, 2, 3, 4, 0, 5, 6, 7, 8] 73 (Some 4) (Some 4) = ([1], [], 12)"
  by (simp add: decode_data_def calculatePadLength_def buffer_slice_def to_number_def Let_def)

section \<open>Incomplete transactions and missing handlers\<close>

text \<open>
  C6: for a request whose function code resolves to a subcommand name (and whose
  \<open>commandId\<close> the command table knows, as it does whenever the server routes a command
  to this handler), if \<open>parameterCount < totalParameterCount\<close> or
  \<open>dataCount < totalDataCount\<close>, or if no handler is registered under the name, then
  \<open>handle\<close> returns having passed \<open>cb\<close> exactly the result with status
  \<open>STATUS_NOT_IMPLEMENTED\<close> and the original \<open>commandParams\<close> and \<open>commandData\<close>, and it
  calls no subcommand handler.
\<close>

theorem incomplete_or_unhandled_is_not_implemented:
  assumes "resolve_subcommand c (function_code (decode_params commandParams)) = Some subCommand"
      and "COMMAND_TO_STRING c commandId = Some commandName"
      and "to_number (parameterCount (decode_params commandParams))
             < to_number (totalParameterCount (decode_params commandParams))
           \<or> to_number (dataCount (decode_params commandParams))
             < to_number (totalDataCount (decode_params commandParams))
           \<or> subCmdHandlers subCommand = None"
  shows "handle c subCmdHandlers msg commandId commandParams commandData
           commandParamsOffset commandDataOffset connection server
         = \<lparr> dispatched = [],
             cb_calls = [\<lparr> status = STATUS_NOT_IMPLEMENTED c, params = commandParams,
                           data = commandData, setup_buf = None \<rparr>],
             completion = Returns \<rparr>"
  using assms by (rule handle_not_implemented)

theorem incomplete_or_unhandled_is_not_implemented_witness:
  "resolve_subcommand sample_consts (function_code (decode_params (nt_request 20 0 10 76 0 88 1)))
     = Some ''create''
   \<and> sample_handlers ''create'' = Some echo_handler
   \<and> COMMAND_TO_STRING sample_consts 160 = Some ''nt_transact''
   \<and> to_number (parameterCount (decode_params (nt_request 20 0 10 76 0 88 1)))
       < to_number (totalParameterCount (decode_params (nt_request 20 0 10 76 0 88 1)))
   \<and> handle sample_consts sample_handlers (sample_msg []) 160 (nt_request 20 0 10 76 0 88 1)
        [7, 7, 7] 35 73 () ()
       = \<lparr> dispatched = [],
           cb_calls = [\<lparr> status = 3221225474, params = nt_request 20 0 10 76 0 88 1,
                         data = [7, 7, 7], setup_buf = None \<rparr>],
           completion = Returns \<rparr>
   \<and> resolve_subcommand sample_consts (function_code (decode_params (nt_request 0 0 0 76 0 76 3)))
     = Some ''set_security_desc''
   \<and> sample_handlers ''set_security_desc'' = None
   \<and> handle sample_consts sample_handlers (sample_msg []) 160 (nt_request 0 0 0 76 0 76 3)
        [] 35 73 () ()
       = \<lparr> dispatched = [],
           cb_calls = [\<lparr> status = 3221225474, params = nt_request 0 0 0 76 0 76 3,
                         data = [], setup_buf = None \<rparr>],
           completion = Returns \<rparr>"
proof -
  have r1: "resolve_subcommand sample_consts
      (function_code (decode_params (nt_request 20 0 10 76 0 88 1))) = Some ''create''"
    by (simp add: sample_resolve)
  have r2: "resolve_subcommand sample_consts
      (function_code (decode_params (nt_request 0 0 0 76 0 76 3))) = Some ''set_security_desc''"
    by (simp add: sample_resolve)
  have k: "COMMAND_TO_STRING sample_consts 160 = Some ''nt_transact''"
    by (simp add: sample_consts_def)
  have i1: "to_number (parameterCount (decode_params (nt_request 20 0 10 76 0 88 1)))
       < to_number (totalParameterCount (decode_params (nt_request 20 0 10 76 0 88 1)))"
    by (simp add: decode_params_nt_request to_number_def)
  have n2: "sample_handlers ''set_security_desc'' = None"
    by (simp add: sample_handlers_def)
  have h1: "sample_handlers ''create'' = Some echo_handler"
    by (simp add: sample_handlers_def)
  have s: "STATUS_NOT_IMPLEMENTED sample_consts = 3221225474"
    by (simp add: sample_consts_def)
  show ?thesis
    using incomplete_or_unhandled_is_not_implemented
            [of sample_consts "nt_request 20 0 10 76 0 88 1" "''create''" 160 "''nt_transact''"
                sample_handlers "sample_msg []" "[7, 7, 7]" 35 73 "()" "()", OF r1 k disjI1 [OF i1]]
          incomplete_or_unhandled_is_not_implemented
            [of sample_consts "nt_request 0 0 0 76 0 76 3" "''set_security_desc''" 160 "''nt_transact''"
                sample_handlers "sample_msg []" "[]" 35 73 "()" "()", OF r2 k disjI2 [OF disjI2 [OF n2]]]
          r1 r2 k i1 n2 h1
    by (simp only: s simp_thms)
qed

section \<open>Failed handler results\<close>

text \<open>
  C7: when the request reaches a registered handler, every result the handler
  delivers with a status other than \<open>STATUS_SUCCESS\<close> is passed to \<open>cb\<close> with that status
  unchanged and with \<open>params\<close> and \<open>data\<close> replaced by the original \<open>commandParams\<close> and
  \<open>commandData\<close>, not the handler's own buffers.
\<close>

theorem failed_result_echoes_request:
  assumes "resolve_subcommand c (function_code (decode_params commandParams)) = Some subCommand"
      and "COMMAND_TO_STRING c commandId = Some commandName"
      and "\<not> to_number (parameterCount (decode_params commandParams))
               < to_number (totalParameterCount (decode_params commandParams))"
      and "\<not> to_number (dataCount (decode_params commandParams))
               < to_number (totalDataCount (decode_params commandParams))"
      and "subCmdHandlers subCommand = Some handler"
      and "delivered (handler (handler_call (decode_request msg commandParams) connection server))
             = results"
      and "i < length results"
      and "status (results ! i) \<noteq> STATUS_SUCCESS c"
  shows "cb_calls (handle c subCmdHandlers msg commandId commandParams commandData
                     commandParamsOffset commandDataOffset connection server) ! i
           = (results ! i)\<lparr> params := commandParams, data := commandData \<rparr>
         \<and> status (cb_calls (handle c subCmdHandlers msg commandId commandParams commandData
                     commandParamsOffset commandDataOffset connection server) ! i)
           = status (results ! i)"
proof -
  have "cb_calls (handle c subCmdHandlers msg commandId commandParams commandData
                     commandParamsOffset commandDataOffset connection server) ! i
          = handler_callback c commandParams commandData (results ! i)"
    using assms(1-7) by (rule handle_dispatch_nth)
  with assms(8) show ?thesis
    by (simp add: handler_callback_def)
qed

theorem failed_result_echoes_request_witness:
  "resolve_subcommand sample_consts (function_code (decode_params (nt_request 4 0 4 76 0 80 5)))
     = Some ''rename''
   \<and> COMMAND_TO_STRING sample_consts 160 = Some ''nt_transact''
   \<and> sample_handlers ''rename'' = Some denying_handler
   \<and> delivered (denying_handler (handler_call
         (decode_request (sample_msg []) (nt_request 4 0 4 76 0 80 5)) () ()))
       = [\<lparr> status = 3221225506, params = [1, 2], data = [3], setup_buf = None \<rparr>]
   \<and> STATUS_SUCCESS sample_consts = 0
   \<and> cb_calls (handle sample_consts sample_handlers (sample_msg []) 160
         (nt_request 4 0 4 76 0 80 5) [9, 9, 9, 9] 35 73 () ()) ! 0
       = \<lparr> status = 3221225506, params = nt_request 4 0 4 76 0 80 5, data = [9, 9, 9, 9],
           setup_buf = None \<rparr>"
proof -
  have r: "resolve_subcommand sample_consts
      (function_code (decode_params (nt_request 4 0 4 76 0 80 5))) = Some ''rename''"
    by (simp add: sample_resolve)
  have k: "COMMAND_TO_STRING sample_consts 160 = Some ''nt_transact''"
    by (simp add: sample_consts_def)
  have c1: "\<not> to_number (parameterCount (decode_params (nt_request 4 0 4 76 0 80 5)))
       < to_number (totalParameterCount (decode_params (nt_request 4 0 4 76 0 80 5)))"
    by (simp add: decode_params_nt_request to_number_def)
  have c2: "\<not> to_number (dataCount (decode_params (nt_request 4 0 4 76 0 80 5)))
       < to_number (totalDataCount (decode_params (nt_request 4 0 4 76 0 80 5)))"
    by (simp add: decode_params_nt_request to_number_def)
  have h: "sample_handlers ''rename'' = Some denying_handler"
    by (simp add: sample_handlers_def)
  have d: "delivered (denying_handler (handler_call
         (decode_request (sample_msg []) (nt_request 4 0 4 76 0 80 5)) () ()))
       = [\<lparr> status = 3221225506, params = [1, 2], data = [3], setup_buf = None \<rparr>]"
    by (simp add: denying_handler_def)
  have l: "0 < length [\<lparr> status = 3221225506, params = [1, 2], data = [3 :: byte],
      setup_buf = None \<rparr>]"
    by simp
  have s: "STATUS_SUCCESS sample_consts = 0"
    by (simp add: sample_consts_def)
  have f: "status ([\<lparr> status = 3221225506, params = [1, 2], data = [3 :: byte],
      setup_buf = None \<rparr>] ! 0) \<noteq> STATUS_SUCCESS sample_consts"
    by (simp add: s)
  show ?thesis
    using failed_result_echoes_request
            [where c = sample_consts and commandParams = "nt_request 4 0 4 76 0 80 5"
               and subCmdHandlers = sample_handlers and handler = denying_handler
               and msg = "sample_msg []" and connection = "()" and server = "()" and i = 0
               and commandId = 160 and commandData = "[9, 9, 9, 9]"
               and commandParamsOffset = 35 and commandDataOffset = 73,
             OF r k c1 c2 h d l f]
          r k h d s
    by simp
qed

section \<open>Response assembly: the offsets\<close>

text \<open>
  C9: in response assembly, for every params, data and setup buffer, the parameter
  block starts before the data block whenever the params are not empty, and the data
  region's start \<open>dataOffset\<close> is not after the parameter block's start.
\<close>

theorem response_offsets_monotone:
  "(0 < length subParams \<longrightarrow>
      l_subParamsOffset (calc_layout c subParams subData setup)
        < l_subDataOffset (calc_layout c subParams subData setup))
   \<and> l_dataOffset (calc_layout c subParams subData setup)
        \<le> l_subParamsOffset (calc_layout c subParams subData setup)"
  by (simp add: calc_layout_def Let_def)

theorem response_offsets_monotone_witness:
  "0 < length [1, 2, 3, 4 :: byte]
   \<and> l_dataOffset (calc_layout sample_consts [1, 2, 3, 4] [] []) = 71
   \<and> l_subParamsOffset (calc_layout sample_consts [1, 2, 3, 4] [] []) = 72
   \<and> l_subDataOffset (calc_layout sample_consts [1, 2, 3, 4] [] []) = 76
   \<and> l_subParamsOffset (calc_layout sample_consts [1, 2, 3, 4] [] [])
        < l_subDataOffset (calc_layout sample_consts [1, 2, 3, 4] [] [])
   \<and> l_dataOffset (calc_layout sample_consts [1, 2, 3, 4] [] [])
        \<le> l_subParamsOffset (calc_layout sample_consts [1, 2, 3, 4] [] [])"
  using response_offsets_monotone [of "[1, 2, 3, 4]" sample_consts "[]" "[]"]
  by (simp add: calc_layout_def Let_def sample_consts_def calculatePadLength_def)

section \<open>Response assembly: the buffers\<close>

lemma length_out_params: "length (out_params l p d s) = 36 + length s"
  by (simp add: out_params_def pad_def length_word32le word8_def put_def)

lemma out_params_nth_35: "out_params l p d s ! 35 = of_nat (length s)"
proof -
  define fixed where "fixed = pad 3 @ word32le (length p) @ word32le (length d)
      @ word32le (length p) @ word32le (l_subParamsOffset l) @ word32le 0
      @ word32le (length d) @ word32le (l_subDataOffset l) @ word32le 0"
  have split: "out_params l p d s = fixed @ of_nat (length s) # s"
    by (simp add: fixed_def out_params_def word8_def put_def)
  have len: "length fixed = 35"
    by (simp add: fixed_def pad_def length_word32le)
  show ?thesis
    unfolding split using nth_append_length [of fixed "of_nat (length s)" s]
    by (simp add: len)
qed

lemma out_params_read:
  "word_le 4 (out_params l p d s) 3 = (Some (length p mod 2 ^ 32), 7)
   \<and> word_le 4 (out_params l p d s) 7 = (Some (length d mod 2 ^ 32), 11)
   \<and> word_le 4 (out_params l p d s) 11 = (Some (length p mod 2 ^ 32), 15)
   \<and> word_le 4 (out_params l p d s) 15 = (Some (l_subParamsOffset l mod 2 ^ 32), 19)
   \<and> word_le 4 (out_params l p d s) 19 = (Some 0, 23)
   \<and> word_le 4 (out_params l p d s) 23 = (Some (length d mod 2 ^ 32), 27)
   \<and> word_le 4 (out_params l p d s) 27 = (Some (l_subDataOffset l mod 2 ^ 32), 31)
   \<and> word_le 4 (out_params l p d s) 31 = (Some 0, 35)
   \<and> word_le 1 (out_params l p d s) 35 = (Some (length s mod 256), 36)
   \<and> drop 36 (out_params l p d s) = s"
proof -
  let ?P = "out_params l p d s"
  let ?w1 = "word32le (length p)" and ?w2 = "word32le (length d)"
  let ?w4 = "word32le (l_subParamsOffset l)" and ?w7 = "word32le (l_subDataOffset l)"
  let ?z = "word32le 0"
  have P: "?P = pad 3 @ ?w1 @ ?w2 @ ?w1 @ ?w4 @ ?z @ ?w2 @ ?w7 @ ?z @ [of_nat (length s)] @ s"
    by (simp add: out_params_def word8_def put_def)
  have f1: "take 4 (drop 3 ?P) = ?w1"
    unfolding P by (simp add: pad_def length_word32le)
  have f2: "take 4 (drop 7 ?P) = ?w2"
    unfolding P by (simp add: pad_def length_word32le)
  have f3: "take 4 (drop 11 ?P) = ?w1"
    unfolding P by (simp add: pad_def length_word32le)
  have f4: "take 4 (drop 15 ?P) = ?w4"
    unfolding P by (simp add: pad_def length_word32le)
  have f5: "take 4 (drop 19 ?P) = ?z"
    unfolding P by (simp add: pad_def length_word32le)
  have f6: "take 4 (drop 23 ?P) = ?w2"
    unfolding P by (simp add: pad_def length_word32le)
  have f7: "take 4 (drop 27 ?P) = ?w7"
    unfolding P by (simp add: pad_def length_word32le)
  have f8: "take 4 (drop 31 ?P) = ?z"
    unfolding P by (simp add: pad_def length_word32le)
  have f9: "drop 35 ?P = of_nat (length s) # s"
    unfolding P by (simp add: pad_def length_word32le)
  have f10: "drop 36 ?P = s"
    unfolding P by (simp add: pad_def length_word32le)
  have z: "decodeLEu (word32le 0) = 0"
    by (simp add: decodeLEu_word32le)
  have b: "decodeLEu [of_nat (length s)] = length s mod 256"
    by (simp add: unat_of_nat)
  show ?thesis
    by (simp add: word_le_ok length_out_params f1 f2 f3 f4 f5 f6 f7 f8 f9 f10
          decodeLEu_word32le z b del: decodeLEu.simps)
qed

lemma handler_callback_success:
  assumes "status r = STATUS_SUCCESS c"
      and "params r = p" and "data r = d"
      and "(case setup_buf r of None \<Rightarrow> [] | Some b \<Rightarrow> b) = s"
  shows "handler_callback c cp cd r
           = \<lparr> status = STATUS_SUCCESS c,
               params = out_params (calc_layout c p d s) p d s,
               data = out_data (calc_layout c p d s) p d,
               setup_buf = None \<rparr>"
  using assms by (auto simp add: handler_callback_def Let_def EMPTY_BUFFER_def split: option.splits)

lemma calc_layout_fields:
  "l_dataOffset (calc_layout c p d s) = SMB_MIN_LENGTH c + 36 + length s
   \<and> l_pad1 (calc_layout c p d s) = calculatePadLength (SMB_MIN_LENGTH c + 36 + length s) 4
   \<and> l_subParamsOffset (calc_layout c p d s)
       = SMB_MIN_LENGTH c + 36 + length s + calculatePadLength (SMB_MIN_LENGTH c + 36 + length s) 4
   \<and> l_pad2 (calc_layout c p d s)
       = calculatePadLength (l_subParamsOffset (calc_layout c p d s) + length p) 4
   \<and> l_subDataOffset (calc_layout c p d s)
       = l_subParamsOffset (calc_layout c p d s) + length p + l_pad2 (calc_layout c p d s)
   \<and> l_off (calc_layout c p d s) = l_subDataOffset (calc_layout c p d s) + length d"
  by (simp add: calc_layout_def Let_def add.assoc)

text \<open>
  C8: when the request reaches a registered handler, every result the handler
  delivers with status \<open>STATUS_SUCCESS\<close>, params \<open>p\<close>, data \<open>d\<close> and setup \<open>s\<close> (empty when
  absent) is answered with status \<open>STATUS_SUCCESS\<close> and these buffers. The parameter
  buffer has length \<open>36 + length s\<close>: three zero bytes, the eight little-endian 32-bit
  fields \<open>length p\<close>, \<open>length d\<close>, \<open>length p\<close>, \<open>subParamsOffset\<close>, 0, \<open>length d\<close>,
  \<open>subDataOffset\<close>, 0, the setup count byte, and the setup bytes. The data buffer is
  \<open>pad1\<close> zero bytes, \<open>p\<close>, \<open>pad2\<close> zero bytes, \<open>d\<close>. The offsets are computed left to
  right from \<open>dataOffset = SMB_MIN_LENGTH + 36 + length s\<close>. The fields read back, with
  the reader the request decoder uses, as the values themselves when the response
  ends below \<open>2 ^ 32\<close>.
\<close>

theorem successful_result_is_assembled:
  assumes "resolve_subcommand c (function_code (decode_params commandParams)) = Some subCommand"
      and "COMMAND_TO_STRING c commandId = Some commandName"
      and "\<not> to_number (parameterCount (decode_params commandParams))
               < to_number (totalParameterCount (decode_params commandParams))"
      and "\<not> to_number (dataCount (decode_params commandParams))
               < to_number (totalDataCount (decode_params commandParams))"
      and "subCmdHandlers subCommand = Some handler"
      and "delivered (handler (handler_call (decode_request msg commandParams) connection server))
             = results"
      and "i < length results"
      and "status (results ! i) = STATUS_SUCCESS c"
      and "params (results ! i) = p"
      and "data (results ! i) = d"
      and "(case setup_buf (results ! i) of None \<Rightarrow> [] | Some b \<Rightarrow> b) = s"
      and "SMB_MIN_LENGTH c + 36 + length s + 3 + length p + 3 + length d < 2 ^ 32"
  shows "let dataOffset' = SMB_MIN_LENGTH c + 36 + length s;
             pad1 = calculatePadLength dataOffset' 4;
             subParamsOffset = dataOffset' + pad1;
             pad2 = calculatePadLength (subParamsOffset + length p) 4;
             subDataOffset = subParamsOffset + length p + pad2;
             response = cb_calls (handle c subCmdHandlers msg commandId commandParams
                          commandData commandParamsOffset commandDataOffset connection server) ! i
         in response
              = \<lparr> status = STATUS_SUCCESS c,
                  params = replicate 3 0
                    @ word32le (length p) @ word32le (length d) @ word32le (length p)
                    @ word32le subParamsOffset @ word32le 0
                    @ word32le (length d) @ word32le subDataOffset @ word32le 0
                    @ [of_nat (length s)] @ s,
                  data = replicate pad1 0 @ p @ replicate pad2 0 @ d,
                  setup_buf = None \<rparr>
            \<and> length (params response) = 36 + length s
            \<and> word_le 4 (params response) 3 = (Some (length p), 7)
            \<and> word_le 4 (params response) 7 = (Some (length d), 11)
            \<and> word_le 4 (params response) 11 = (Some (length p), 15)
            \<and> word_le 4 (params response) 15 = (Some subParamsOffset, 19)
            \<and> word_le 4 (params response) 19 = (Some 0, 23)
            \<and> word_le 4 (params response) 23 = (Some (length d), 27)
            \<and> word_le 4 (params response) 27 = (Some subDataOffset, 31)
            \<and> word_le 4 (params response) 31 = (Some 0, 35)
            \<and> drop 36 (params response) = s"
proof -
  let ?l = "calc_layout c p d s"
  have resp: "cb_calls (handle c subCmdHandlers msg commandId commandParams commandData
                     commandParamsOffset commandDataOffset connection server) ! i
          = \<lparr> status = STATUS_SUCCESS c, params = out_params ?l p d s,
              data = out_data ?l p d, setup_buf = None \<rparr>"
  proof -
    have "cb_calls (handle c subCmdHandlers msg commandId commandParams commandData
                     commandParamsOffset commandDataOffset connection server) ! i
          = handler_callback c commandParams commandData (results ! i)"
      using assms(1-7) by (rule handle_dispatch_nth)
    then show ?thesis
      using handler_callback_success [OF assms(8-11)] by simp
  qed
  have pad1: "calculatePadLength (SMB_MIN_LENGTH c + 36 + length s) 4 \<le> 3"
    using calculatePadLength_4_bounds [of "SMB_MIN_LENGTH c + 36 + length s"] by simp
  have pad2: "calculatePadLength (l_subParamsOffset ?l + length p) 4 \<le> 3"
    using calculatePadLength_4_bounds [of "l_subParamsOffset ?l + length p"] by simp
  have small: "length p < 2 ^ 32" "length d < 2 ^ 32"
      "l_subParamsOffset ?l < 2 ^ 32" "l_subDataOffset ?l < 2 ^ 32"
    using assms(12) pad1 pad2 by (simp_all add: calc_layout_fields)
  have fields: "word_le 4 (out_params ?l p d s) 3 = (Some (length p), 7)
      \<and> word_le 4 (out_params ?l p d s) 7 = (Some (length d), 11)
      \<and> word_le 4 (out_params ?l p d s) 11 = (Some (length p), 15)
      \<and> word_le 4 (out_params ?l p d s) 15 = (Some (l_subParamsOffset ?l), 19)
      \<and> word_le 4 (out_params ?l p d s) 19 = (Some 0, 23)
      \<and> word_le 4 (out_params ?l p d s) 23 = (Some (length d), 27)
      \<and> word_le 4 (out_params ?l p d s) 27 = (Some (l_subDataOffset ?l), 31)
      \<and> word_le 4 (out_params ?l p d s) 31 = (Some 0, 35)
      \<and> drop 36 (out_params ?l p d s) = s"
    using out_params_read [of ?l p d s] small by simp
  have shape: "out_params ?l p d s = replicate 3 0
      @ word32le (length p) @ word32le (length d) @ word32le (length p)
      @ word32le (l_subParamsOffset ?l) @ word32le 0
      @ word32le (length d) @ word32le (l_subDataOffset ?l) @ word32le 0
      @ [of_nat (length s)] @ s"
    by (simp add: out_params_def pad_def word8_def put_def)
  have dshape: "out_data ?l p d = replicate (l_pad1 ?l) 0 @ p @ replicate (l_pad2 ?l) 0 @ d"
    by (simp add: out_data_def pad_def put_def)
  show ?thesis
    unfolding Let_def resp
    using fields shape dshape calc_layout_fields [of c p d s] length_out_params [of ?l p d s]
    by simp
qed

theorem successful_result_is_assembled_witness:
  "resolve_subcommand sample_consts (function_code (decode_params (nt_request 4 0 4 76 0 80 1)))
     = Some ''create''
   \<and> COMMAND_TO_STRING sample_consts 160 = Some ''nt_transact''
   \<and> sample_handlers ''create'' = Some echo_handler
   \<and> delivered (echo_handler (handler_call
         (decode_request (sample_msg (replicate 76 0 @ [1, 2, 3, 4])) (nt_request 4 0 4 76 0 80 1))
         () ()))
       = [\<lparr> status = 0, params = [1, 2, 3, 4], data = [], setup_buf = None \<rparr>]
   \<and> STATUS_SUCCESS sample_consts = 0
   \<and> SMB_MIN_LENGTH sample_consts = 35
   \<and> cb_calls (handle sample_consts sample_handlers (sample_msg (replicate 76 0 @ [1, 2, 3, 4]))
         160 (nt_request 4 0 4 76 0 80 1) [0, 0, 0, 1, 2, 3, 4] 35 73 () ()) ! 0
       = \<lparr> status = 0,
           params = [0, 0, 0,  4, 0, 0, 0,  0, 0, 0, 0,  4, 0, 0, 0,  72, 0, 0, 0,  0, 0, 0, 0,
                     0, 0, 0, 0,  76, 0, 0, 0,  0, 0, 0, 0,  0],
           data = [0, 1, 2, 3, 4],
           setup_buf = None \<rparr>"
proof -
  let ?cp = "nt_request 4 0 4 76 0 80 1"
  let ?msg = "sample_msg (replicate 76 0 @ [1, 2, 3, 4])"
  let ?rs = "[\<lparr> status = 0, params = [1, 2, 3, 4 :: byte], data = [] :: buffer, setup_buf = None \<rparr>]"
  have r: "resolve_subcommand sample_consts (function_code (decode_params ?cp)) = Some ''create''"
    by (simp add: sample_resolve)
  have k: "COMMAND_TO_STRING sample_consts 160 = Some ''nt_transact''"
    by (simp add: sample_consts_def)
  have c1: "\<not> to_number (parameterCount (decode_params ?cp))
       < to_number (totalParameterCount (decode_params ?cp))"
    by (simp add: decode_params_nt_request to_number_def)
  have c2: "\<not> to_number (dataCount (decode_params ?cp))
       < to_number (totalDataCount (decode_params ?cp))"
    by (simp add: decode_params_nt_request to_number_def)
  have h: "sample_handlers ''create'' = Some echo_handler"
    by (simp add: sample_handlers_def)
  have d: "delivered (echo_handler (handler_call (decode_request ?msg ?cp) () ())) = ?rs"
    by (simp add: echo_handler_def handler_call_def sub_params_def sub_data_def
          decode_request_def assign_def sample_msg_def decode_params_nt_request to_number_def
          buffer_slice_def Let_def)
  have l: "0 < length ?rs"
    by simp
  have s: "STATUS_SUCCESS sample_consts = 0" and m: "SMB_MIN_LENGTH sample_consts = 35"
    by (simp_all add: sample_consts_def)
  have f: "status (?rs ! 0) = STATUS_SUCCESS sample_consts"
    by (simp add: s)
  have p: "params (?rs ! 0) = [1, 2, 3, 4]" and dd: "data (?rs ! 0) = []"
    and sb: "(case setup_buf (?rs ! 0) of None \<Rightarrow> [] | Some b \<Rightarrow> b) = []"
    by simp_all
  have bound: "SMB_MIN_LENGTH sample_consts + 36 + length ([] :: buffer) + 3
      + length [1, 2, 3, 4 :: byte] + 3 + length ([] :: buffer) < 2 ^ 32"
    by (simp add: m)
  have r3: "replicate 3 (0 :: byte) = [0, 0, 0]"
    by (simp add: numeral_3_eq_3)
  note inst = successful_result_is_assembled
            [where c = sample_consts and commandParams = ?cp
               and subCmdHandlers = sample_handlers and handler = echo_handler
               and msg = ?msg and connection = "()" and server = "()" and i = 0
               and commandId = 160 and commandData = "[0, 0, 0, 1, 2, 3, 4]"
               and commandParamsOffset = 35 and commandDataOffset = 73,
             OF r k c1 c2 h d l f p dd sb bound]
  from inst [unfolded Let_def, THEN conjunct1, unfolded s m]
  have resp: "cb_calls (handle sample_consts sample_handlers ?msg 160 ?cp
      [0, 0, 0, 1, 2, 3, 4] 35 73 () ()) ! 0
      = \<lparr> status = 0,
           params = [0, 0, 0,  4, 0, 0, 0,  0, 0, 0, 0,  4, 0, 0, 0,  72, 0, 0, 0,  0, 0, 0, 0,
                     0, 0, 0, 0,  76, 0, 0, 0,  0, 0, 0, 0,  0],
           data = [0, 1, 2, 3, 4],
           setup_buf = None \<rparr>"
    by (simp add: calculatePadLength_def word32le_def r3)
  show ?thesis
    using resp r k h d s m by simp
qed

text \<open>
  C10: for a successful handler result whose setup buffer (empty when absent) has
  length \<open>n\<close>, the setup
  count byte (at index 35 of the outgoing parameter buffer) is \<open>n mod 256\<close>; it is \<open>n\<close>
  itself exactly when \<open>n < 256\<close>, while the buffer's length is \<open>36 + n\<close> for every \<open>n\<close>.
\<close>

theorem setup_count_byte_truncates:
  assumes "resolve_subcommand c (function_code (decode_params commandParams)) = Some subCommand"
      and "COMMAND_TO_STRING c commandId = Some commandName"
      and "\<not> to_number (parameterCount (decode_params commandParams))
               < to_number (totalParameterCount (decode_params commandParams))"
      and "\<not> to_number (dataCount (decode_params commandParams))
               < to_number (totalDataCount (decode_params commandParams))"
      and "subCmdHandlers subCommand = Some handler"
      and "delivered (handler (handler_call (decode_request msg commandParams) connection server))
             = results"
      and "i < length results"
      and "status (results ! i) = STATUS_SUCCESS c"
      and "(case setup_buf (results ! i) of None \<Rightarrow> [] | Some b \<Rightarrow> b) = setup"
  shows "unat (params (cb_calls (handle c subCmdHandlers msg commandId commandParams commandData
                     commandParamsOffset commandDataOffset connection server) ! i) ! 35)
           = length setup mod 256
         \<and> (unat (params (cb_calls (handle c subCmdHandlers msg commandId commandParams commandData
                     commandParamsOffset commandDataOffset connection server) ! i) ! 35)
              = length setup) = (length setup < 256)
         \<and> length (params (cb_calls (handle c subCmdHandlers msg commandId commandParams commandData
                     commandParamsOffset commandDataOffset connection server) ! i))
           = 36 + length setup"
proof -
  have "cb_calls (handle c subCmdHandlers msg commandId commandParams commandData
                     commandParamsOffset commandDataOffset connection server) ! i
          = handler_callback c commandParams commandData (results ! i)"
    using assms(1-7) by (rule handle_dispatch_nth)
  then have "params (cb_calls (handle c subCmdHandlers msg commandId commandParams commandData
                     commandParamsOffset commandDataOffset connection server) ! i)
      = out_params (calc_layout c (params (results ! i)) (data (results ! i)) setup)
          (params (results ! i)) (data (results ! i)) setup"
    using handler_callback_success [OF assms(8) refl refl assms(9)] by simp
  moreover have "(length setup mod 256 = length setup) = (length setup < 256)"
    by (metis mod_less mod_less_divisor zero_less_numeral)
  ultimately show ?thesis
    by (simp add: out_params_nth_35 length_out_params unat_of_nat)
qed

theorem setup_count_byte_truncates_witness:
  "resolve_subcommand sample_consts (function_code (decode_params (nt_request 0 0 0 76 0 76 2)))
     = Some ''ioctl''
   \<and> COMMAND_TO_STRING sample_consts 160 = Some ''nt_transact''
   \<and> sample_handlers ''ioctl'' = Some long_setup_handler
   \<and> delivered (long_setup_handler (handler_call
         (decode_request (sample_msg []) (nt_request 0 0 0 76 0 76 2)) () ()))
       = [\<lparr> status = 0, params = [], data = [], setup_buf = Some (replicate 256 0) \<rparr>]
   \<and> STATUS_SUCCESS sample_consts = 0
   \<and> length (replicate 256 (0 :: byte)) = 256
   \<and> unat (params (cb_calls (handle sample_consts sample_handlers (sample_msg []) 160
         (nt_request 0 0 0 76 0 76 2) [] 35 73 () ()) ! 0) ! 35) = 0
   \<and> length (params (cb_calls (handle sample_consts sample_handlers (sample_msg []) 160
         (nt_request 0 0 0 76 0 76 2) [] 35 73 () ()) ! 0)) = 292"
proof -
  have r: "resolve_subcommand sample_consts
      (function_code (decode_params (nt_request 0 0 0 76 0 76 2))) = Some ''ioctl''"
    by (simp add: sample_resolve)
  have k: "COMMAND_TO_STRING sample_consts 160 = Some ''nt_transact''"
    by (simp add: sample_consts_def)
  have c1: "\<not> to_number (parameterCount (decode_params (nt_request 0 0 0 76 0 76 2)))
       < to_number (totalParameterCount (decode_params (nt_request 0 0 0 76 0 76 2)))"
    by (simp add: decode_params_nt_request to_number_def)
  have c2: "\<not> to_number (dataCount (decode_params (nt_request 0 0 0 76 0 76 2)))
       < to_number (totalDataCount (decode_params (nt_request 0 0 0 76 0 76 2)))"
    by (simp add: decode_params_nt_request to_number_def)
  have h: "sample_handlers ''ioctl'' = Some long_setup_handler"
    by (simp add: sample_handlers_def)
  have d: "delivered (long_setup_handler (handler_call
         (decode_request (sample_msg []) (nt_request 0 0 0 76 0 76 2)) () ()))
       = [\<lparr> status = 0, params = [], data = [], setup_buf = Some (replicate 256 0) \<rparr>]"
    by (simp add: long_setup_handler_def)
  have l: "0 < length [\<lparr> status = 0, params = [], data = [],
      setup_buf = Some (replicate 256 (0 :: byte)) \<rparr>]"
    by simp
  have s: "STATUS_SUCCESS sample_consts = 0"
    by (simp add: sample_consts_def)
  have f: "status ([\<lparr> status = 0, params = [], data = [],
      setup_buf = Some (replicate 256 (0 :: byte)) \<rparr>] ! 0) = STATUS_SUCCESS sample_consts"
    by (simp add: s)
  have b: "(case setup_buf ([\<lparr> status = 0, params = [], data = [],
      setup_buf = Some (replicate 256 (0 :: byte)) \<rparr>] ! 0) of None \<Rightarrow> [] | Some b \<Rightarrow> b)
      = replicate 256 0"
    by simp
  show ?thesis
    using setup_count_byte_truncates
            [where c = sample_consts and commandParams = "nt_request 0 0 0 76 0 76 2"
               and subCmdHandlers = sample_handlers and handler = long_setup_handler
               and msg = "sample_msg []" and connection = "()" and server = "()" and i = 0
               and commandId = 160 and commandData = "[]"
               and commandParamsOffset = 35 and commandDataOffset = 73,
             OF r k c1 c2 h d l f b]
          r k h d s
    by simp
qed

end
